theory Spec2Isabelle
  imports Complex_Main "HOL-Library.Multiset"
begin

section \<open>JavaScript values\<close>

text \<open>
  The utilities are written against untyped JavaScript values (\<open>any\<close>). A value is a
  primitive, a function, an array or an object. Functions, arrays and objects carry the
  identity of the heap cell they live in (a \<open>nat\<close>), since \<open>===\<close> compares them by
  reference. Numbers are the whole numbers and \<open>NaN\<close>; fractions and the infinities are not
  needed by the functions modelled here. A function carries the text that its
  \<open>toString()\<close> returns. An object carries its class (\<open>instanceof List\<close> of the
  \<open>immutable\<close> library looks at it) and its own enumerable properties in the order
  \<open>Object.keys\<close> lists them.
\<close>

datatype error = TypeError

datatype cls = PlainObject | ImmutableList

datatype jsval =
    Undefined
  | Null
  | Bool bool
  | Num int
  | NaN
  | Str string
  | Fn nat string
  | Arr nat "jsval list"
  | Obj nat cls "(string \<times> jsval) list"

text \<open>\<open>value == null\<close> and \<open>value != null\<close> of value-utils.\<close>

fun isNullOrUndefined :: "jsval \<Rightarrow> bool" where
  "isNullOrUndefined Undefined = True"
| "isNullOrUndefined Null = True"
| "isNullOrUndefined _ = False"

definition isNotNullOrUndefined :: "jsval \<Rightarrow> bool" where
  "isNotNullOrUndefined v = (\<not> isNullOrUndefined v)"

text \<open>The operator \<open>===\<close>: primitives by value (\<open>NaN\<close> equals nothing), everything else
  by reference.\<close>

fun strict_eq :: "jsval \<Rightarrow> jsval \<Rightarrow> bool" where
  "strict_eq Undefined Undefined = True"
| "strict_eq Null Null = True"
| "strict_eq (Bool a) (Bool b) = (a = b)"
| "strict_eq (Num a) (Num b) = (a = b)"
| "strict_eq (Str a) (Str b) = (a = b)"
| "strict_eq (Fn a _) (Fn b _) = (a = b)"
| "strict_eq (Arr a _) (Arr b _) = (a = b)"
| "strict_eq (Obj a _ _) (Obj b _ _) = (a = b)"
| "strict_eq _ _ = False"

datatype jstype = TUndefined | TObject | TBoolean | TNumber | TString | TFunction

fun typeof :: "jsval \<Rightarrow> jstype" where
  "typeof Undefined = TUndefined"
| "typeof Null = TObject"
| "typeof (Bool _) = TBoolean"
| "typeof (Num _) = TNumber"
| "typeof NaN = TNumber"
| "typeof (Str _) = TString"
| "typeof (Fn _ _) = TFunction"
| "typeof (Arr _ _) = TObject"
| "typeof (Obj _ _ _) = TObject"

text \<open>Decimal text of a whole number, as \<open>String(n)\<close> gives it.\<close>

definition digit_char :: "nat \<Rightarrow> char" where
  "digit_char d = char_of (48 + d)"

fun dec_nat :: "nat \<Rightarrow> string" where
  "dec_nat n = (if n < 10 then [digit_char n] else dec_nat (n div 10) @ [digit_char (n mod 10)])"

declare dec_nat.simps [simp del]

definition dec_int :: "int \<Rightarrow> string" where
  "dec_int i = (if i < 0 then CHR ''-'' # dec_nat (nat (- i)) else dec_nat (nat i))"

text \<open>The keys of an array are its indices; of a string, the indices of its code units.\<close>

definition index_keys :: "nat \<Rightarrow> string list" where
  "index_keys n = map dec_nat [0..<n]"

text \<open>\<open>Object.keys(v)\<close>: a \<open>TypeError\<close> on \<open>null\<close> and \<open>undefined\<close>, the own enumerable
  string keys otherwise (none for a number, a boolean or a function without properties).\<close>

fun Object_keys :: "jsval \<Rightarrow> error + string list" where
  "Object_keys Undefined = Inl TypeError"
| "Object_keys Null = Inl TypeError"
| "Object_keys (Str s) = Inr (index_keys (length s))"
| "Object_keys (Arr _ xs) = Inr (index_keys (length xs))"
| "Object_keys (Obj _ _ ps) = Inr (map fst ps)"
| "Object_keys _ = Inr []"

text \<open>Property read \<open>v[key]\<close> on a value that is not \<open>null\<close> or \<open>undefined\<close>: the
  own properties and \<open>length\<close>; a missing property reads as \<open>undefined\<close>. Properties
  inherited from a prototype (methods such as \<open>toString\<close>) are not read this way by the
  functions below on the inputs considered.\<close>

fun nth_or_undefined :: "jsval list \<Rightarrow> string list \<Rightarrow> string \<Rightarrow> jsval" where
  "nth_or_undefined (x # xs) (k # ks) key = (if key = k then x else nth_or_undefined xs ks key)"
| "nth_or_undefined _ _ key = Undefined"

fun get_prop :: "jsval \<Rightarrow> string \<Rightarrow> jsval" where
  "get_prop (Arr _ xs) key =
     (if key = ''length'' then Num (int (length xs))
      else nth_or_undefined xs (index_keys (length xs)) key)"
| "get_prop (Obj _ _ ps) key = (case map_of ps key of None \<Rightarrow> Undefined | Some v \<Rightarrow> v)"
| "get_prop (Str s) key =
     (if key = ''length'' then Num (int (length s))
      else nth_or_undefined (map (\<lambda>c. Str [c]) s) (index_keys (length s)) key)"
| "get_prop _ key = Undefined"

section \<open>CollectionUtils\<close>

subsection \<open>isEmpty and hasValues\<close>

text \<open>
  \<open>_isEmpty(...collections)\<close>: the rest parameter is always an array, so the first guard
  never fires. The callback of \<open>collections.map\<close> updates the flag \<open>isEmpty\<close>; the loop
  below threads it. A hash is empty when \<open>_isEmpty(Object.keys(hash))\<close> says so: a
  recursive call on one argument, the fresh array of keys.
\<close>

fun isEmpty_weight :: "jsval \<Rightarrow> nat" where
  "isEmpty_weight Undefined = 0"
| "isEmpty_weight Null = 0"
| "isEmpty_weight (Arr _ _) = 0"
| "isEmpty_weight _ = 2"

function isEmpty_loop :: "bool \<Rightarrow> jsval list \<Rightarrow> error + bool" where
  "isEmpty_loop isEmpty [] = Inr isEmpty"
| "isEmpty_loop isEmpty (collection # rest) =
     (if isNullOrUndefined collection then isEmpty_loop isEmpty rest
      else (case collection of
          Obj a ImmutableList ps \<Rightarrow>
            isEmpty_loop (if \<not> strict_eq (get_prop collection ''size'') (Num 0) then False else isEmpty) rest
        | Arr a xs \<Rightarrow>
            isEmpty_loop (if \<not> strict_eq (get_prop collection ''length'') (Num 0) then False else isEmpty) rest
        | _ \<Rightarrow>
            (case Object_keys collection of
               Inl e \<Rightarrow> Inl e
             | Inr keys \<Rightarrow>
                 (case isEmpty_loop True [Arr 0 (map Str keys)] of
                    Inl e \<Rightarrow> Inl e
                  | Inr hashIsEmpty \<Rightarrow>
                      isEmpty_loop (if \<not> hashIsEmpty then False else isEmpty) rest))))"
  by pat_completeness auto
termination
  by (relation "measure (\<lambda>(f, cs). sum_list (map isEmpty_weight cs) + length cs)") auto

definition isEmpty :: "jsval list \<Rightarrow> error + bool" where
  "isEmpty collections = isEmpty_loop True collections"

text \<open>\<open>_hasValues(...collections)\<close>: sets its flag for every argument that
  \<open>_isEmpty(collection)\<close> rejects.\<close>

fun hasValues_loop :: "bool \<Rightarrow> jsval list \<Rightarrow> error + bool" where
  "hasValues_loop hasValues [] = Inr hasValues"
| "hasValues_loop hasValues (collection # rest) =
     (case isEmpty [collection] of
        Inl e \<Rightarrow> Inl e
      | Inr collectionIsEmpty \<Rightarrow>
          hasValues_loop (if \<not> collectionIsEmpty then True else hasValues) rest)"

definition hasValues :: "jsval list \<Rightarrow> error + bool" where
  "hasValues collections = hasValues_loop False collections"

subsection \<open>differenceOf and intersectionOf\<close>

text \<open>
  \<open>List<T>(collection)\<close> of the \<open>immutable\<close> library copies an array or a List into a
  List; \<open>null\<close> and \<open>undefined\<close> (\<open>None\<close> here) give the empty List. A List is its
  sequence of elements. The comparator is optional; left out, it is \<open>===\<close>.
\<close>

definition List_of :: "jsval list option \<Rightarrow> jsval list" where
  "List_of collection = (case collection of None \<Rightarrow> [] | Some xs \<Rightarrow> xs)"

definition comparator_or_default ::
  "(jsval \<Rightarrow> jsval \<Rightarrow> bool) option \<Rightarrow> jsval \<Rightarrow> jsval \<Rightarrow> bool" where
  "comparator_or_default comparator =
     (case comparator of
        None \<Rightarrow> (\<lambda>elementOfA elementOfB. strict_eq elementOfA elementOfB)
      | Some c \<Rightarrow> c)"

definition differenceOf ::
  "jsval list option \<Rightarrow> jsval list option \<Rightarrow> (jsval \<Rightarrow> jsval \<Rightarrow> bool) option \<Rightarrow> jsval list" where
  "differenceOf collectionA collectionB comparator =
     (let listA = List_of collectionA;
          listB = List_of collectionB;
          cmp = comparator_or_default comparator
      in filter (\<lambda>elementA. \<not> list_ex (\<lambda>elementB. cmp elementA elementB) listB) listA)"

definition intersectionOf ::
  "jsval list option \<Rightarrow> jsval list option \<Rightarrow> (jsval \<Rightarrow> jsval \<Rightarrow> bool) option \<Rightarrow> jsval list" where
  "intersectionOf collectionA collectionB comparator =
     (let listA = List_of collectionA;
          listB = List_of collectionB;
          cmp = comparator_or_default comparator
      in filter (\<lambda>elementA. list_ex (\<lambda>elementB. cmp elementA elementB) listB) listA)"

text \<open>
  A comparator is transitive when \<open>cmp(x, y)\<close> and \<open>cmp(y, z)\<close> give \<open>cmp(x, z)\<close>. Two
  comparators for the examples: \<open>(a, b) => a !== b\<close>, which is not transitive, and
  \<open>(a, b) => typeof a === typeof b\<close>, which is.
\<close>

definition transitive_comparator :: "(jsval \<Rightarrow> jsval \<Rightarrow> bool) \<Rightarrow> bool" where
  "transitive_comparator cmp = (\<forall>x y z. cmp x y \<and> cmp y z \<longrightarrow> cmp x z)"

definition not_strict_eq :: "jsval \<Rightarrow> jsval \<Rightarrow> bool" where
  "not_strict_eq a b = (\<not> strict_eq a b)"

definition same_typeof :: "jsval \<Rightarrow> jsval \<Rightarrow> bool" where
  "same_typeof a b = (typeof a = typeof b)"

subsection \<open>Conversions to string and to number\<close>

text \<open>
  \<open>String(v)\<close>, as a property key or as the result of \<open>v.toString()\<close>. Arrays join their
  elements with commas (\<open>null\<close> and \<open>undefined\<close> elements give the empty string); objects
  are taken to inherit \<open>Object.prototype.toString\<close>.
\<close>

fun join_comma :: "string list \<Rightarrow> string" where
  "join_comma [] = []"
| "join_comma [s] = s"
| "join_comma (s # t # ts) = s @ '','' @ join_comma (t # ts)"

fun to_string :: "jsval \<Rightarrow> string" where
  "to_string Undefined = ''undefined''"
| "to_string Null = ''null''"
| "to_string (Bool b) = (if b then ''true'' else ''false'')"
| "to_string (Num n) = dec_int n"
| "to_string NaN = ''NaN''"
| "to_string (Str s) = s"
| "to_string (Fn _ text) = text"
| "to_string (Arr _ xs) =
     join_comma (map (\<lambda>x. if isNullOrUndefined x then [] else to_string x) xs)"
| "to_string (Obj _ _ _) = ''[object Object]''"

text \<open>The method call \<open>v.toString()\<close> throws on \<open>null\<close> and \<open>undefined\<close>.\<close>

definition method_toString :: "jsval \<Rightarrow> error + string" where
  "method_toString v = (if isNullOrUndefined v then Inl TypeError else Inr (to_string v))"

text \<open>
  Which strings convert to a number other than \<open>NaN\<close> (the grammar of
  \<open>StringNumericLiteral\<close>, over ASCII): after trimming white space, the empty string,
  a hexadecimal, octal or binary integer, or a signed decimal with optional fraction and
  exponent, or a signed \<open>Infinity\<close>.
\<close>

definition is_ws :: "char \<Rightarrow> bool" where
  "is_ws c = (of_char c \<in> {9, 10, 11, 12, 13, 32 :: nat})"

definition is_digit :: "char \<Rightarrow> bool" where
  "is_digit c = (48 \<le> (of_char c :: nat) \<and> (of_char c :: nat) \<le> 57)"

definition is_hex_digit :: "char \<Rightarrow> bool" where
  "is_hex_digit c = (is_digit c \<or> (65 \<le> (of_char c :: nat) \<and> (of_char c :: nat) \<le> 70)
     \<or> (97 \<le> (of_char c :: nat) \<and> (of_char c :: nat) \<le> 102))"

definition is_octal_digit :: "char \<Rightarrow> bool" where
  "is_octal_digit c = (48 \<le> (of_char c :: nat) \<and> (of_char c :: nat) \<le> 55)"

definition is_binary_digit :: "char \<Rightarrow> bool" where
  "is_binary_digit c = (c = CHR ''0'' \<or> c = CHR ''1'')"

definition trim_ws :: "string \<Rightarrow> string" where
  "trim_ws s = rev (dropWhile is_ws (rev (dropWhile is_ws s)))"

definition digits_nonempty :: "(char \<Rightarrow> bool) \<Rightarrow> string \<Rightarrow> bool" where
  "digits_nonempty p s = (s \<noteq> [] \<and> list_all p s)"

definition strip_sign :: "string \<Rightarrow> string" where
  "strip_sign s = (case s of [] \<Rightarrow> [] | c # cs \<Rightarrow> if c = CHR ''+'' \<or> c = CHR ''-'' then cs else s)"

definition exponent_part_opt :: "string \<Rightarrow> bool" where
  "exponent_part_opt s =
     (case s of
        [] \<Rightarrow> True
      | c # cs \<Rightarrow> (c = CHR ''e'' \<or> c = CHR ''E'') \<and> digits_nonempty is_digit (strip_sign cs))"

definition unsigned_decimal :: "string \<Rightarrow> bool" where
  "unsigned_decimal s =
     (s = ''Infinity'' \<or>
      (let ip = takeWhile is_digit s; r1 = dropWhile is_digit s
       in case r1 of
            [] \<Rightarrow> ip \<noteq> []
          | c # r2 \<Rightarrow>
              if c = CHR ''.''
              then (ip \<noteq> [] \<or> takeWhile is_digit r2 \<noteq> []) \<and> exponent_part_opt (dropWhile is_digit r2)
              else ip \<noteq> [] \<and> exponent_part_opt r1))"

definition non_decimal_integer :: "string \<Rightarrow> bool" where
  "non_decimal_integer s =
     (case s of
        z # x # ds \<Rightarrow>
          z = CHR ''0'' \<and>
          (((x = CHR ''x'' \<or> x = CHR ''X'') \<and> digits_nonempty is_hex_digit ds) \<or>
           ((x = CHR ''o'' \<or> x = CHR ''O'') \<and> digits_nonempty is_octal_digit ds) \<or>
           ((x = CHR ''b'' \<or> x = CHR ''B'') \<and> digits_nonempty is_binary_digit ds))
      | _ \<Rightarrow> False)"

definition string_is_numeric :: "string \<Rightarrow> bool" where
  "string_is_numeric s =
     (let t = trim_ws s
      in t = [] \<or> non_decimal_integer t \<or> unsigned_decimal (strip_sign t))"

text \<open>The global \<open>isNaN(v)\<close>: whether \<open>Number(v)\<close> is \<open>NaN\<close>. Functions and objects are
  taken to inherit the default \<open>valueOf\<close> and \<open>toString\<close>.\<close>

fun isNaN :: "jsval \<Rightarrow> bool" where
  "isNaN Undefined = True"
| "isNaN Null = False"
| "isNaN (Bool _) = False"
| "isNaN (Num _) = False"
| "isNaN NaN = True"
| "isNaN v = (\<not> string_is_numeric (to_string v))"

subsection \<open>getDefaultMap\<close>

text \<open>
  A \<open>Map\<close> of the \<open>immutable\<close> library, as the list of its entries in insertion order.
  \<open>set\<close> replaces the value of a key that is present and appends a new entry otherwise.
  Keys are compared with \<open>Immutable.is\<close>: \<open>===\<close>, and \<open>NaN\<close> is \<open>NaN\<close>.
\<close>

type_synonym 'v immutable_map = "(jsval \<times> 'v) list"

definition imm_is :: "jsval \<Rightarrow> jsval \<Rightarrow> bool" where
  "imm_is a b = (strict_eq a b \<or> (a = NaN \<and> b = NaN))"

fun map_set :: "'v immutable_map \<Rightarrow> jsval \<Rightarrow> 'v \<Rightarrow> 'v immutable_map" where
  "map_set [] k v = [(k, v)]"
| "map_set ((k', v') # m) k v = (if imm_is k' k then (k', v) # m else (k', v') # map_set m k v)"

text \<open>
  \<open>_getDefaultMap(enumType, defaultValue = false)\<close>. \<open>Object.keys(enumType)\<close> throws on
  \<open>null\<close> and \<open>undefined\<close>. For each key the value \<open>enumType[key]\<close> is read; a value that
  is a number is entered as a key of the map, any other value is taken for an enumerant's
  name and \<open>enumType[value]\<close> is entered.
\<close>

definition getDefaultMap_step :: "jsval \<Rightarrow> bool \<Rightarrow> string \<Rightarrow> bool immutable_map \<Rightarrow> bool immutable_map" where
  "getDefaultMap_step enumType defaultValue key defaultMap =
     (let val = get_prop enumType key
      in if \<not> isNaN val
         then map_set defaultMap (get_prop enumType key) defaultValue
         else map_set defaultMap (get_prop enumType (to_string val)) defaultValue)"

definition getDefaultMap :: "jsval \<Rightarrow> bool option \<Rightarrow> error + bool immutable_map" where
  "getDefaultMap enumType defaultValue =
     (let dv = (case defaultValue of None \<Rightarrow> False | Some b \<Rightarrow> b)
      in case Object_keys enumType of
           Inl e \<Rightarrow> Inl e
         | Inr keys \<Rightarrow> Inr (fold (getDefaultMap_step enumType dv) keys []))"

text \<open>The key that one step of \<open>getDefaultMap\<close> enters for a key of the enum object.\<close>

definition enum_target :: "jsval \<Rightarrow> string \<Rightarrow> jsval" where
  "enum_target enumType key =
     (if \<not> isNaN (get_prop enumType key) then get_prop enumType key
      else get_prop enumType (to_string (get_prop enumType key)))"

text \<open>
  A numeric enum object, as the TypeScript compiler emits it or as a literal such as
  \<open>{A: 0, B: 1}\<close>: the keys are distinct; every property is either an enumerant (its
  value is a number) or a reverse-lookup entry, whose value is the name of an enumerant
  (a string that is not numeric and is a key bound to a number). Its enumerant values
  are the numbers among the property values.
\<close>

definition is_enum_entry :: "(string \<times> jsval) list \<Rightarrow> string \<times> jsval \<Rightarrow> bool" where
  "is_enum_entry ps e =
     (case snd e of
        Num n \<Rightarrow> True
      | Str name \<Rightarrow>
          \<not> string_is_numeric name \<and>
          (case map_of ps name of Some (Num n) \<Rightarrow> True | _ \<Rightarrow> False)
      | _ \<Rightarrow> False)"

definition numeric_enum :: "(string \<times> jsval) list \<Rightarrow> bool" where
  "numeric_enum ps = (distinct (map fst ps) \<and> list_all (is_enum_entry ps) ps)"

definition is_Num :: "jsval \<Rightarrow> bool" where
  "is_Num v = (case v of Num n \<Rightarrow> True | _ \<Rightarrow> False)"

definition enumerant_values :: "(string \<times> jsval) list \<Rightarrow> jsval list" where
  "enumerant_values ps = filter is_Num (map snd ps)"

subsection \<open>isEqual\<close>

text \<open>
  The loop \<open>for (const key of keysA)\<close> of \<open>_isEqual\<close>: the body is run for each key in
  turn; \<open>return false\<close> (here \<open>Inr False\<close>) and an exception leave the loop at once.
\<close>

fun for_keys :: "(string \<Rightarrow> error + bool) \<Rightarrow> string list \<Rightarrow> error + bool" where
  "for_keys body [] = Inr True"
| "for_keys body (key # rest) =
     (case body key of
        Inl e \<Rightarrow> Inl e
      | Inr continue \<Rightarrow> if \<not> continue then Inr False else for_keys body rest)"

lemma for_keys_cong [fundef_cong]:
  "keys = keys' \<Longrightarrow> (\<And>key. key \<in> set keys' \<Longrightarrow> body key = body' key)
     \<Longrightarrow> for_keys body keys = for_keys body' keys'"
proof (induction keys arbitrary: keys')
  case Nil
  then show ?case by simp
next
  case (Cons k ks)
  then show ?case by (auto split: sum.splits)
qed

lemma size_nth_or_undefined: "size (nth_or_undefined xs ks key) \<le> size_list size xs"
  by (induction xs ks key rule: nth_or_undefined.induct) auto

lemma size_map_of:
  "map_of ps key = Some v \<Longrightarrow> size v < Suc (size_list (size_prod (\<lambda>_. 0) size) ps)"
  by (induction ps) (auto split: if_splits)

lemma size_get_prop:
  "typeof objectA = TObject \<Longrightarrow> \<not> isNullOrUndefined objectA
     \<Longrightarrow> size (get_prop objectA key) < size objectA"
proof (cases objectA)
  case (Arr a xs)
  then show ?thesis
    using size_nth_or_undefined [of xs "index_keys (length xs)" key]
    by (simp add: less_Suc_eq_le)
next
  case (Obj a c ps)
  then show ?thesis
    using size_map_of [of ps key] by (simp split: option.splits)
qed simp_all

text \<open>
  \<open>_isEqual(objectA, objectB)\<close>. A property that is a function on either side is compared
  by the text of \<open>toString()\<close> on both sides, which throws when the other side is \<open>null\<close> or
  \<open>undefined\<close>.
\<close>

function isEqual :: "jsval \<Rightarrow> jsval \<Rightarrow> error + bool" where
  "isEqual objectA objectB =
     (if strict_eq objectA objectB then Inr True
      else if typeof objectA \<noteq> TObject \<or> typeof objectB \<noteq> TObject
              \<or> isNullOrUndefined objectA \<or> isNullOrUndefined objectB
      then Inr False
      else (case Object_keys objectA of
          Inl e \<Rightarrow> Inl e
        | Inr keysA \<Rightarrow>
         (case Object_keys objectB of
            Inl e \<Rightarrow> Inl e
          | Inr keysB \<Rightarrow>
              if length keysA \<noteq> length keysB then Inr False
              else for_keys (\<lambda>key.
                if key \<notin> set keysB then Inr False
                else if typeof (get_prop objectA key) = TFunction
                        \<or> typeof (get_prop objectB key) = TFunction
                then (case method_toString (get_prop objectA key) of
                        Inl e \<Rightarrow> Inl e
                      | Inr textA \<Rightarrow>
                         (case method_toString (get_prop objectB key) of
                            Inl e \<Rightarrow> Inl e
                          | Inr textB \<Rightarrow> if textA \<noteq> textB then Inr False else Inr True))
                else (case isEqual (get_prop objectA key) (get_prop objectB key) of
                        Inl e \<Rightarrow> Inl e
                      | Inr eq \<Rightarrow> if \<not> eq then Inr False else Inr True)) keysA)))"
  by pat_completeness auto
termination
  by (relation "measure (\<lambda>(objectA, objectB). size objectA)") (auto simp: size_get_prop)

declare isEqual.simps [simp del]

text \<open>Whether a function occurs in a value, at any depth.\<close>

fun has_function :: "jsval \<Rightarrow> bool" where
  "has_function (Fn _ _) = True"
| "has_function (Arr _ xs) = list_ex has_function xs"
| "has_function (Obj _ _ ps) = list_ex has_function (map snd ps)"
| "has_function _ = False"

section \<open>The date library\<close>

text \<open>
  A \<open>Moment\<close> wraps a JavaScript \<open>Date\<close>: a count of milliseconds since the epoch, or the
  invalid date. The fields the utilities read and write (year, month, day of month, hour,
  minute, second) are computed from the count in the proleptic Gregorian calendar. The
  local zone is taken to have a constant offset, folded into the count, so that a calendar
  day is 86400000 ms long.
\<close>

datatype moment = Invalid | At int

definition msPerDay :: int where "msPerDay = 86400000"
definition msPerHour :: int where "msPerHour = 3600000"
definition msPerMinute :: int where "msPerMinute = 60000"
definition msPerSecond :: int where "msPerSecond = 1000"

text \<open>Day number of a civil date (month 1 to 12) and back, counted from 1970-01-01.\<close>

definition days_from_civil :: "int \<Rightarrow> int \<Rightarrow> int \<Rightarrow> int" where
  "days_from_civil y m d =
     (let y' = (if m \<le> 2 then y - 1 else y);
          era = y' div 400;
          yoe = y' - era * 400;
          mp = (if m > 2 then m - 3 else m + 9);
          doy = (153 * mp + 2) div 5 + d - 1;
          doe = yoe * 365 + yoe div 4 - yoe div 100 + doy
      in era * 146097 + doe - 719468)"

definition civil_from_days :: "int \<Rightarrow> int \<times> int \<times> int" where
  "civil_from_days z =
     (let z' = z + 719468;
          era = z' div 146097;
          doe = z' - era * 146097;
          yoe = (doe - doe div 1460 + doe div 36524 - doe div 146096) div 365;
          y = yoe + era * 400;
          doy = doe - (365 * yoe + yoe div 4 - yoe div 100);
          mp = (5 * doy + 2) div 153;
          d = doy - (153 * mp + 2) div 5 + 1;
          m = (if mp < 10 then mp + 3 else mp - 9)
      in (if m \<le> 2 then y + 1 else y, m, d))"

definition isLeapYear :: "int \<Rightarrow> bool" where
  "isLeapYear y = ((y mod 4 = 0 \<and> y mod 100 \<noteq> 0) \<or> y mod 400 = 0)"

text \<open>\<open>daysInMonth(year, month)\<close> of the library, month counted from 0 and wrapped.\<close>

definition daysInMonth :: "int \<Rightarrow> int \<Rightarrow> int" where
  "daysInMonth year month =
     (let modMonth = month mod 12;
          year' = year + (month - modMonth) div 12
      in if modMonth = 1 then (if isLeapYear year' then 29 else 28)
         else 31 - ((modMonth mod 7) mod 2))"

text \<open>\<open>MakeDay(year, month, date)\<close> of the language: month counted from 0, and both month
  and date may overflow into the next unit.\<close>

definition MakeDay :: "int \<Rightarrow> int \<Rightarrow> int \<Rightarrow> int" where
  "MakeDay year month date =
     days_from_civil (year + month div 12) (month mod 12 + 1) 1 + date - 1"

definition day_of :: "int \<Rightarrow> int" where
  "day_of t = t div msPerDay"

definition time_in_day :: "int \<Rightarrow> int" where
  "time_in_day t = t mod msPerDay"

definition year_of :: "int \<Rightarrow> int" where
  "year_of t = fst (civil_from_days (day_of t))"

definition month_of :: "int \<Rightarrow> int" where
  "month_of t = fst (snd (civil_from_days (day_of t))) - 1"

definition date_of :: "int \<Rightarrow> int" where
  "date_of t = snd (snd (civil_from_days (day_of t)))"

definition hour_of :: "int \<Rightarrow> int" where
  "hour_of t = (t div msPerHour) mod 24"

definition minute_of :: "int \<Rightarrow> int" where
  "minute_of t = (t div msPerMinute) mod 60"

definition second_of :: "int \<Rightarrow> int" where
  "second_of t = (t div msPerSecond) mod 60"


text \<open>The getters of a moment: a number, \<open>NaN\<close> on the invalid moment.\<close>

datatype field = Year | Month | Date | Hour | Minute | Second

fun get_field :: "field \<Rightarrow> int \<Rightarrow> int" where
  "get_field Year t = year_of t"
| "get_field Month t = month_of t"
| "get_field Date t = date_of t"
| "get_field Hour t = hour_of t"
| "get_field Minute t = minute_of t"
| "get_field Second t = second_of t"

fun getter :: "field \<Rightarrow> moment \<Rightarrow> jsval" where
  "getter f Invalid = NaN"
| "getter f (At t) = Num (get_field f t)"

fun isValid :: "moment \<Rightarrow> bool" where
  "isValid Invalid = False"
| "isValid (At t) = True"

text \<open>
  \<open>moment.set(unit, value)\<close>. Setting the month clamps the day of month to the length of
  the new month; setting the day of month or the time lets the \<open>Date\<close> overflow; setting the
  year moves 29 February to the last day of February. \<open>set_field\<close> is the arithmetic of
  the new time value (\<open>MakeDay\<close>, \<open>MakeTime\<close>, \<open>MakeDate\<close>).
\<close>

fun set_field :: "field \<Rightarrow> int \<Rightarrow> int \<Rightarrow> int" where
  "set_field Month v t =
     (let dayOfMonth = min (date_of t) (daysInMonth (year_of t) v)
      in MakeDay (year_of t) v dayOfMonth * msPerDay + time_in_day t)"
| "set_field Date v t = MakeDay (year_of t) (month_of t) v * msPerDay + time_in_day t"
| "set_field Year v t =
     (if isLeapYear (year_of t) \<and> month_of t = 1 \<and> date_of t = 29
      then MakeDay v (month_of t) (daysInMonth v (month_of t)) * msPerDay + time_in_day t
      else MakeDay v (month_of t) (date_of t) * msPerDay + time_in_day t)"
| "set_field Hour v t = t + (v - hour_of t) * msPerHour"
| "set_field Minute v t = t + (v - minute_of t) * msPerMinute"
| "set_field Second v t = t + (v - second_of t) * msPerSecond"

text \<open>
  A \<open>Date\<close> holds a time value of at most 8.64e15 ms on either side of the epoch:
  \<open>TimeClip\<close> turns a time value beyond that into \<open>NaN\<close>, and the moment is then the
  invalid one. An invalid moment and a value that is not a number leave the moment as it
  is.
\<close>

definition maxTime :: int where "maxTime = 8640000000000000"

definition time_clip :: "int \<Rightarrow> moment" where
  "time_clip t = (if \<bar>t\<bar> \<le> maxTime then At t else Invalid)"

fun setter :: "field \<Rightarrow> jsval \<Rightarrow> moment \<Rightarrow> moment" where
  "setter f (Num v) (At t) = time_clip (set_field f v t)"
| "setter f _ m = m"

text \<open>\<open>moment.add(n, "day")\<close> and \<open>moment.isSame(other, "day" | "year")\<close>.\<close>

fun add_days :: "int \<Rightarrow> moment \<Rightarrow> moment" where
  "add_days n Invalid = Invalid"
| "add_days n (At t) = At (t + n * msPerDay)"

fun isSame_day :: "moment \<Rightarrow> moment \<Rightarrow> bool" where
  "isSame_day (At a) (At b) = (day_of a = day_of b)"
| "isSame_day _ _ = False"

fun isSame_year :: "moment \<Rightarrow> moment \<Rightarrow> bool" where
  "isSame_year (At a) (At b) = (year_of a = year_of b)"
| "isSame_year _ _ = False"

text \<open>
  What the utilities take from their surroundings: the clock, the library's parsers and
  printer, the string helpers of \<open>CoreUtils\<close> and the table \<open>DateFormats\<close>, none of which
  is part of the two source files.
\<close>

record env =
  now :: int
  parse :: "string \<Rightarrow> moment"
  parse_with :: "string \<Rightarrow> string \<Rightarrow> moment"
  format_with :: "moment \<Rightarrow> string \<Rightarrow> string"
  tz :: "moment \<Rightarrow> string option \<Rightarrow> moment"
  stringIsEmpty :: "string option \<Rightarrow> bool"
  stringHasValue :: "string option \<Rightarrow> bool"
  OrdinalTimeMeridian :: string
  OrdinalMonthDayTimeMeridian :: string
  OrdinalMonthDayYearTimeMeridian :: string
  OrdinalMonthDayTwoDigitYear :: string
  OrdinalMonthDayFullYear :: string
  ISODateTimeOffset :: string
  DateTimeOffset :: string

text \<open>A timestamp argument: \<open>string | number | Moment\<close>, or \<open>null\<close>, or \<open>undefined\<close>.\<close>

datatype timestamp = TsUndefined | TsNull | TsStr string | TsNum int | TsNaN | TsMoment moment

fun ts_isNullOrUndefined :: "timestamp \<Rightarrow> bool" where
  "ts_isNullOrUndefined TsUndefined = True"
| "ts_isNullOrUndefined TsNull = True"
| "ts_isNullOrUndefined _ = False"

text \<open>The constructor \<open>Moment(x)\<close>: the current time for \<open>undefined\<close>, the invalid moment
  for \<open>null\<close> and \<open>NaN\<close>, a copy of a moment, the instant of a number, the parse of a
  string.\<close>

fun Moment :: "'a env_scheme \<Rightarrow> timestamp \<Rightarrow> moment" where
  "Moment E TsUndefined = At (now E)"
| "Moment E TsNull = Invalid"
| "Moment E (TsStr s) = parse E s"
| "Moment E (TsNum n) = At n"
| "Moment E TsNaN = Invalid"
| "Moment E (TsMoment m) = m"

section \<open>DateUtils\<close>

subsection \<open>dateDiff, dateDiffNow and dateDiffNowFriendly\<close>

text \<open>
  A JavaScript number that may be a fraction: a rational, or \<open>NaN\<close> (\<open>None\<close>).
  \<open>a.diff(b, unit, precise)\<close> divides the difference in milliseconds by the length of the
  unit and, unless \<open>precise\<close>, truncates towards zero. The units of fixed length are
  modelled; the difference of an invalid moment is \<open>NaN\<close>.
\<close>

type_synonym number = "rat option"

datatype unitOfTime = Milliseconds | Seconds | Minutes | Hours | Days | Weeks

fun unit_ms :: "unitOfTime \<Rightarrow> int" where
  "unit_ms Milliseconds = 1"
| "unit_ms Seconds = 1000"
| "unit_ms Minutes = 60000"
| "unit_ms Hours = 3600000"
| "unit_ms Days = 86400000"
| "unit_ms Weeks = 604800000"

definition absFloor :: "rat \<Rightarrow> rat" where
  "absFloor x = (if x < 0 then of_int \<lceil>x\<rceil> else of_int \<lfloor>x\<rfloor>)"

fun diff :: "moment \<Rightarrow> moment \<Rightarrow> unitOfTime \<Rightarrow> bool \<Rightarrow> number" where
  "diff (At a) (At b) u precise =
     (let output = of_int (a - b) / of_int (unit_ms u)
      in Some (if precise then output else absFloor output))"
| "diff _ _ u precise = None"

definition dateDiff :: "'a env_scheme \<Rightarrow> timestamp \<Rightarrow> timestamp \<Rightarrow> unitOfTime \<Rightarrow> bool \<Rightarrow> number" where
  "dateDiff E a b unitOftime precise =
     (let aDate = Moment E a in diff aDate (Moment E b) unitOftime precise)"

definition dateDiffNow :: "'a env_scheme \<Rightarrow> timestamp \<Rightarrow> unitOfTime \<Rightarrow> bool \<Rightarrow> number" where
  "dateDiffNow E date unitOftime precise = dateDiff E (TsNum (now E)) date unitOftime precise"

text \<open>Comparisons with \<open>NaN\<close> are false, and \<open>NaN !== 1\<close>.\<close>

fun num_less :: "number \<Rightarrow> rat \<Rightarrow> bool" where
  "num_less None y = False"
| "num_less (Some x) y = (x < y)"

fun num_greater :: "number \<Rightarrow> rat \<Rightarrow> bool" where
  "num_greater None y = False"
| "num_greater (Some x) y = (x > y)"

fun num_strict_neq :: "number \<Rightarrow> rat \<Rightarrow> bool" where
  "num_strict_neq None y = True"
| "num_strict_neq (Some x) y = (x \<noteq> y)"

record DateDiffNowFriendlyReturn =
  value' :: number
  unit :: string

text \<open>\<open>_dateDiffNowFriendly(date)\<close>: the two \<open>if\<close> statements follow each other, the second
  one testing the value the first one may have replaced.\<close>

definition dateDiffNowFriendly :: "'a env_scheme \<Rightarrow> timestamp \<Rightarrow> DateDiffNowFriendlyReturn" where
  "dateDiffNowFriendly E date =
     (let unit0 = ''hour'';
          timeAgo0 = dateDiffNow E date Hours False;
          (unit1, timeAgo1) =
            (if num_less timeAgo0 1 then (''minute'', dateDiffNow E date Minutes False)
             else (unit0, timeAgo0));
          (unit2, timeAgo2) =
            (if num_greater timeAgo1 24 then (''day'', dateDiffNow E date Days False)
             else (unit1, timeAgo1));
          unitText = unit2 @ (if num_strict_neq timeAgo2 1 then ''s'' else '''')
      in \<lparr> value' = timeAgo2, unit = unitText \<rparr>)"

subsection \<open>formatDate\<close>

definition getDateFormatString :: "'a env_scheme \<Rightarrow> moment \<Rightarrow> string" where
  "getDateFormatString E moment =
     (if isSame_day moment (Moment E TsUndefined) then OrdinalTimeMeridian E
      else if isSame_year moment (Moment E TsUndefined) then OrdinalMonthDayTimeMeridian E
      else OrdinalMonthDayYearTimeMeridian E)"

text \<open>The block under \<open>if (showRelativeDates)\<close>: it compares \<open>.date()\<close>, the day of
  the month, of the three days around now with that of the timestamp, and returns a label
  or falls through (\<open>None\<close>).\<close>

definition relativeLabel :: "'a env_scheme \<Rightarrow> timestamp \<Rightarrow> string option" where
  "relativeLabel E timestamp =
     (let todaysDate = getter Date (Moment E TsUndefined);
          yesterdaysDate = getter Date (add_days (- 1) (Moment E TsUndefined));
          tomorrowsDate = getter Date (add_days 1 (Moment E TsUndefined));
          givenDate = getter Date (Moment E timestamp)
      in if strict_eq givenDate yesterdaysDate then Some ''Yesterday''
         else if strict_eq givenDate todaysDate then Some ''Today''
         else if strict_eq givenDate tomorrowsDate then Some ''Tomorrow''
         else None)"

text \<open>
  \<open>_formatDate(timestamp, format, showRelativeDates = false, timezone)\<close>; the result
  \<open>null\<close> is \<open>None\<close>. \<open>Moment(timestamp)\<close> is never \<open>null\<close>, so the second disjunct of
  the guard is false. Only the returned string is modelled; that \<open>timestamp.tz(timezone)\<close>
  also changes a moment passed in is left out.
\<close>

definition formatDate ::
  "'a env_scheme \<Rightarrow> timestamp \<Rightarrow> string option \<Rightarrow> bool \<Rightarrow> string option \<Rightarrow> string option" where
  "formatDate E timestamp format showRelativeDates timezone =
     (let invalidDateTime = (ts_isNullOrUndefined timestamp \<or> False
                             \<or> isNaN (getter Date (Moment E timestamp)))
      in if invalidDateTime then None
      else
        (case (if showRelativeDates then relativeLabel E timestamp else None) of
           Some label \<Rightarrow> Some label
         | None \<Rightarrow>
            (let useTimezone = stringHasValue E timezone;
                 moment = (if useTimezone then tz E (Moment E timestamp) timezone
                           else Moment E timestamp);
                 formatString = (case format of None \<Rightarrow> getDateFormatString E moment | Some f \<Rightarrow> f)
             in Some (format_with E moment formatString))))"

subsection \<open>parseDate\<close>

text \<open>\<open>val.substring(val.length - 4, val.length).indexOf("/")\<close>: the position of the first
  slash among the last four characters, or \<open>-1\<close>.\<close>

fun indexOf_char :: "char \<Rightarrow> string \<Rightarrow> int" where
  "indexOf_char c [] = - 1"
| "indexOf_char c (x # xs) =
     (if x = c then 0 else (let i = indexOf_char c xs in if i < 0 then - 1 else i + 1))"

definition last4 :: "string \<Rightarrow> string" where
  "last4 v = drop (length v - 4) v"

definition shouldParseOrdinalMonthDayTwoDigitYear :: "string \<Rightarrow> bool" where
  "shouldParseOrdinalMonthDayTwoDigitYear v =
     (length v \<ge> 6 \<and> length v \<le> 8 \<and> indexOf_char CHR ''/'' (last4 v) > 0)"

definition shouldParseOrdinalMonthDayFullYear :: "string \<Rightarrow> bool" where
  "shouldParseOrdinalMonthDayFullYear v =
     (length v \<ge> 8 \<and> length v \<le> 10 \<and> indexOf_char CHR ''/'' (last4 v) < 0)"

definition commonDateFormats :: "'a env_scheme \<Rightarrow> (string \<times> (string \<Rightarrow> bool)) list" where
  "commonDateFormats E =
     [(OrdinalMonthDayTwoDigitYear E, shouldParseOrdinalMonthDayTwoDigitYear),
      (OrdinalMonthDayFullYear E, shouldParseOrdinalMonthDayFullYear),
      (ISODateTimeOffset E, \<lambda>_. True),
      (DateTimeOffset E, \<lambda>_. True)]"

text \<open>The loop over the formats: the first parse that is valid is returned; after the
  loop, the parse without a format.\<close>

fun parseDate_loop :: "'a env_scheme \<Rightarrow> string \<Rightarrow> (string \<times> (string \<Rightarrow> bool)) list \<Rightarrow> moment" where
  "parseDate_loop E v [] = parse E v"
| "parseDate_loop E v ((fmt, shouldParse) # rest) =
     (if \<not> shouldParse v then parseDate_loop E v rest
      else (let moment = parse_with E v fmt
            in if isValid moment then moment else parseDate_loop E v rest))"

text \<open>\<open>_parseDate(value)\<close>. A \<open>null\<close> or \<open>undefined\<close> value (\<open>None\<close>) that the helper
  \<open>stringIsEmpty\<close> lets through makes \<open>val.length\<close> throw.\<close>

definition parseDate :: "'a env_scheme \<Rightarrow> string option \<Rightarrow> error + moment" where
  "parseDate E v =
     (if stringIsEmpty E v then Inr Invalid
      else (case v of
              None \<Rightarrow> Inl TypeError
            | Some s \<Rightarrow> Inr (parseDate_loop E s (commonDateFormats E))))"

subsection \<open>copyDate and copyTime\<close>

text \<open>
  Moments are mutable objects: \<open>set\<close> changes the moment it is called on. The heap maps
  each reference to the moment stored there; an operand is a reference, or \<open>null\<close>
  (\<open>None\<close>). A method call on \<open>null\<close> throws. \<open>from.isValid() && to.isValid()\<close> does not
  look at \<open>to\<close> when \<open>from\<close> is invalid. The functions return \<open>to\<close>, the reference they
  were given, together with the heap they leave behind.
\<close>

type_synonym ref = nat
type_synonym heap = "ref \<Rightarrow> moment"

definition heap_set :: "heap \<Rightarrow> ref \<Rightarrow> field \<Rightarrow> jsval \<Rightarrow> heap" where
  "heap_set h r f v = h(r := setter f v (h r))"

definition copyDate :: "heap \<Rightarrow> ref option \<Rightarrow> ref option \<Rightarrow> error + (ref option \<times> heap)" where
  "copyDate h from to =
     (case from of
        None \<Rightarrow> Inl TypeError
      | Some f \<Rightarrow>
          if \<not> isValid (h f) then Inr (to, h)
          else (case to of
                  None \<Rightarrow> Inl TypeError
                | Some t \<Rightarrow>
                    if \<not> isValid (h t) then Inr (to, h)
                    else
                      (let h1 = heap_set h t Month (getter Month (h f));
                           h2 = heap_set h1 t Date (getter Date (h1 f));
                           h3 = heap_set h2 t Year (getter Year (h2 f))
                       in Inr (to, h3))))"

definition copyTime :: "heap \<Rightarrow> ref option \<Rightarrow> ref option \<Rightarrow> error + (ref option \<times> heap)" where
  "copyTime h from to =
     (case from of
        None \<Rightarrow> Inl TypeError
      | Some f \<Rightarrow>
          if \<not> isValid (h f) then Inr (to, h)
          else (case to of
                  None \<Rightarrow> Inl TypeError
                | Some t \<Rightarrow>
                    if \<not> isValid (h t) then Inr (to, h)
                    else
                      (let h1 = heap_set h t Hour (getter Hour (h f));
                           h2 = heap_set h1 t Minute (getter Minute (h1 f));
                           h3 = heap_set h2 t Second (getter Second (h2 f))
                       in Inr (to, h3))))"

text \<open>A heap for the examples: reference 0 holds 2024-02-15 00:00:00.005, reference 1 holds
  2024-01-10 01:00:00.007, every other reference the invalid moment.\<close>

definition example_heap :: heap where
  "example_heap = (\<lambda>_. Invalid)(0 := At 1707955200005, 1 := At 1704848400007)"

text \<open>An environment for the examples: a library that parses nothing, string helpers that
  take \<open>null\<close>, \<open>undefined\<close> and the empty string for empty, the clock at
  2024-03-15 12:00.\<close>

definition example_env :: env where
  "example_env =
     \<lparr> now = 1710504000000,
       parse = (\<lambda>s. Invalid),
       parse_with = (\<lambda>s fmt. Invalid),
       format_with = (\<lambda>m fmt. fmt),
       tz = (\<lambda>m zone. m),
       stringIsEmpty = (\<lambda>v. v = None \<or> v = Some []),
       stringHasValue = (\<lambda>v. v \<noteq> None \<and> v \<noteq> Some []),
       OrdinalTimeMeridian = ''h:mm A'',
       OrdinalMonthDayTimeMeridian = ''M/D h:mm A'',
       OrdinalMonthDayYearTimeMeridian = ''M/D/YYYY h:mm A'',
       OrdinalMonthDayTwoDigitYear = ''M/D/YY'',
       OrdinalMonthDayFullYear = ''M/D/YYYY'',
       ISODateTimeOffset = ''YYYY-MM-DDTHH:mm:ssZ'',
       DateTimeOffset = ''M/D/YYYY h:mm:ss A Z'' \<rparr>"

section \<open>Properties of isEmpty and hasValues\<close>

lemma isEmpty_loop_total: "\<exists>b. isEmpty_loop f cs = Inr b"
  by (induction f cs rule: isEmpty_loop.induct)
     (auto split: jsval.splits cls.splits sum.splits)

lemma isEmpty_loop_False: "isEmpty_loop False cs = Inr False"
  by (induction "False" cs rule: isEmpty_loop.induct)
     (auto split: jsval.splits cls.splits sum.splits)

lemma isEmpty_loop_Cons:
  "isEmpty_loop f (c # cs) =
     (case isEmpty_loop True [c] of Inl e \<Rightarrow> Inl e | Inr b \<Rightarrow> isEmpty_loop (f \<and> b) cs)"
  by (cases f) (auto split: jsval.splits cls.splits sum.splits simp: isEmpty_loop_False)

lemma hasValues_loop_True: "hasValues_loop True cs = Inr True"
proof (induction cs)
  case Nil
  show ?case by simp
next
  case (Cons c cs)
  obtain b where "isEmpty_loop True [c] = Inr b"
    using isEmpty_loop_total by blast
  with Cons show ?case by (simp add: isEmpty_def del: isEmpty_loop.simps)
qed

lemma loops_complement:
  "\<exists>b. isEmpty_loop f cs = Inr b \<and> hasValues_loop (\<not> f) cs = Inr (\<not> b)"
proof (induction cs arbitrary: f)
  case Nil
  show ?case by simp
next
  case (Cons c cs)
  obtain b where b: "isEmpty_loop True [c] = Inr b"
    using isEmpty_loop_total by blast
  from Cons [of "f \<and> b"] obtain r where
    r: "isEmpty_loop (f \<and> b) cs = Inr r" "hasValues_loop (\<not> (f \<and> b)) cs = Inr (\<not> r)"
    by blast
  have "isEmpty_loop f (c # cs) = Inr r"
    by (subst isEmpty_loop_Cons) (simp only: b r(1) sum.case)
  moreover have "hasValues_loop (\<not> f) (c # cs) = Inr (\<not> r)"
    using b r(2) by (cases b; cases f) (simp_all add: isEmpty_def del: isEmpty_loop.simps)
  ultimately show ?case by blast
qed

text \<open>
  Claim C3. For every argument list (arrays, Lists, hashes, \<open>null\<close>, \<open>undefined\<close> and any
  other value, in any number, also none), \<open>isEmpty(...args)\<close> and \<open>hasValues(...args)\<close> both
  return, and \<open>isEmpty\<close> returns the negation of what \<open>hasValues\<close> returns.
\<close>

theorem isEmpty_complements_hasValues:
  "\<exists>b. isEmpty collections = Inr b \<and> hasValues collections = Inr (\<not> b)"
  using loops_complement [of True collections] by (simp add: isEmpty_def hasValues_def)

section \<open>Properties of the date helpers\<close>

lemma absFloor_of_int_div:
  "0 < b \<Longrightarrow> absFloor (of_int a / of_int b) = of_int (if a < 0 then - ((- a) div b) else a div b)"
proof -
  assume b: "0 < b"
  have fl: "\<lfloor>(of_int a :: rat) / of_int b\<rfloor> = a div b"
    by (simp add: floor_divide_of_int_eq)
  have "\<lceil>(of_int a :: rat) / of_int b\<rceil> = - \<lfloor>- ((of_int a :: rat) / of_int b)\<rfloor>"
    by (simp add: ceiling_def)
  also have "- ((of_int a :: rat) / of_int b) = of_int (- a) / of_int b"
    by simp
  also have "\<lfloor>(of_int (- a) :: rat) / of_int b\<rfloor> = (- a) div b"
    by (simp only: floor_divide_of_int_eq)
  finally have ce: "\<lceil>(of_int a :: rat) / of_int b\<rceil> = - ((- a) div b)" .
  have neg: "((of_int a :: rat) / of_int b < 0) = (a < 0)"
    using b by (simp add: divide_less_0_iff)
  show ?thesis
    unfolding absFloor_def neg fl ce by simp
qed

lemma diff_At_trunc:
  "diff (At a) (At b) u False =
     Some (of_int (if a - b < 0 then - ((- (a - b)) div unit_ms u) else (a - b) div unit_ms u))"
proof -
  have "0 < unit_ms u" by (cases u) simp_all
  then show ?thesis by (simp add: absFloor_of_int_div del: of_int_diff of_int_minus)
qed

lemma half_hour_in_hours:
  "dateDiffNow (E\<lparr>now := n\<rparr>) (TsNum (n - 1800000)) Hours False = Some 0"
  by (simp add: dateDiffNow_def dateDiff_def diff_At_trunc del: diff.simps)

lemma half_hour_in_minutes:
  "dateDiffNow (E\<lparr>now := n\<rparr>) (TsNum (n - 1800000)) Minutes False = Some 30"
  by (simp add: dateDiffNow_def dateDiff_def diff_At_trunc del: diff.simps)

lemma half_hour_in_days:
  "dateDiffNow (E\<lparr>now := n\<rparr>) (TsNum (n - 1800000)) Days False = Some 0"
  by (simp add: dateDiffNow_def dateDiff_def diff_At_trunc del: diff.simps)

text \<open>
  Claim C1. \<open>dateDiffNowFriendly\<close> is claimed to report minutes when the difference in
  hours is under 1, and days only when the difference in hours exceeds 24, so that a
  timestamp 30 minutes in the past gives \<open>{value: 30, unit: "minutes"}\<close>. The code tests
  \<open>timeAgo > 24\<close> after \<open>timeAgo\<close> has been replaced by the minutes: at any clock reading
  \<open>n\<close>, the timestamp \<open>n - 1800000\<close> (30 minutes earlier) gives 0 hours, then 30 minutes,
  then, since 30 exceeds 24, 0 days, and the result is \<open>{value: 0, unit: "days"}\<close>.
\<close>

theorem dateDiffNowFriendly_half_hour_ago:
  "dateDiffNowFriendly (E\<lparr>now := n\<rparr>) (TsNum (n - 1800000))
     = \<lparr> value' = Some 0, unit = ''days'' \<rparr>"
  unfolding dateDiffNowFriendly_def half_hour_in_hours half_hour_in_minutes half_hour_in_days
  by simp

lemma date_of_now_example: "getter Date (At 1710504000000) = Num 15"
  by code_simp

lemma date_of_yesterday_example: "getter Date (add_days (- 1) (At 1710504000000)) = Num 14"
  by code_simp

lemma date_of_tomorrow_example: "getter Date (add_days 1 (At 1710504000000)) = Num 16"
  by code_simp

lemma date_of_given_example: "getter Date (At 1707998400000) = Num 15"
  by code_simp

lemma given_example_other_day: "\<not> isSame_day (At 1707998400000) (At 1710504000000)"
  by code_simp

text \<open>
  Claim C2. With \<open>showRelativeDates\<close>, \<open>formatDate\<close> is claimed to answer "Today" exactly
  for a timestamp on the current calendar day. The code compares the day of the month
  only: with the clock at 2024-03-15 12:00 (1710504000000), the timestamp 2024-02-15 12:00
  (1707998400000), a month earlier, is labelled "Today" although it is not on the same
  calendar day.
\<close>

theorem formatDate_today_a_month_later:
  "formatDate (E\<lparr>now := 1710504000000\<rparr>) (TsNum 1707998400000) fmt True zone = Some ''Today''
   \<and> \<not> isSame_day (At 1707998400000) (At 1710504000000)"
proof -
  define E' where "E' = E\<lparr>now := 1710504000000\<rparr>"
  have n: "Moment E' TsUndefined = At 1710504000000"
    by (simp add: E'_def)
  have g: "Moment E' (TsNum 1707998400000) = At 1707998400000"
    by simp
  have "relativeLabel E' (TsNum 1707998400000) = Some ''Today''"
    by (simp add: relativeLabel_def n g date_of_now_example date_of_yesterday_example
        date_of_tomorrow_example date_of_given_example
        del: Moment.simps getter.simps add_days.simps)
  then have "formatDate E' (TsNum 1707998400000) fmt True zone = Some ''Today''"
    by (simp add: formatDate_def g date_of_given_example del: Moment.simps getter.simps)
  then show ?thesis
    using given_example_other_day by (simp add: E'_def del: isSame_day.simps)
qed

section \<open>Properties of differenceOf and intersectionOf\<close>

lemma strict_eq_sym: "strict_eq a b \<Longrightarrow> strict_eq b a"
  by (cases a; cases b) simp_all

lemma strict_eq_trans: "strict_eq a b \<Longrightarrow> strict_eq b c \<Longrightarrow> strict_eq a c"
  by (cases a; cases b; cases c) simp_all

lemma default_comparator_transitive: "transitive_comparator (comparator_or_default None)"
  unfolding transitive_comparator_def comparator_or_default_def
  using strict_eq_trans by auto

lemma transitive_comparator_disjoint:
  assumes "transitive_comparator (comparator_or_default cmp)"
  shows "intersectionOf (Some (differenceOf A B cmp)) (Some (intersectionOf A B cmp)) cmp = []"
proof -
  define c where "c = comparator_or_default cmp"
  define D where "D = filter (\<lambda>x. \<not> list_ex (c x) (List_of B)) (List_of A)"
  define I where "I = filter (\<lambda>x. list_ex (c x) (List_of B)) (List_of A)"
  have t: "c x y \<Longrightarrow> c y z \<Longrightarrow> c x z" for x y z
    using assms unfolding transitive_comparator_def c_def by blast
  have d: "differenceOf A B cmp = D"
    by (simp add: differenceOf_def D_def c_def)
  have i: "intersectionOf A B cmp = I"
    by (simp add: intersectionOf_def I_def c_def)
  have r: "intersectionOf (Some D) (Some I) cmp = filter (\<lambda>x. list_ex (c x) I) D"
    by (simp add: intersectionOf_def List_of_def c_def)
  have "\<not> list_ex (c x) I" if x: "x \<in> set D" for x
  proof
    assume "list_ex (c x) I"
    then obtain y where y: "y \<in> set I" "c x y"
      unfolding list_ex_iff by blast
    from y(1) have "list_ex (c y) (List_of B)"
      by (simp add: I_def)
    then obtain b where b: "b \<in> set (List_of B)" "c y b"
      unfolding list_ex_iff by blast
    from t [OF y(2) b(2)] b(1) have "list_ex (c x) (List_of B)"
      unfolding list_ex_iff by blast
    with x show False
      by (simp add: D_def)
  qed
  then have "filter (\<lambda>x. list_ex (c x) I) D = []"
    by (simp add: filter_empty_conv)
  then show ?thesis
    by (simp only: d i r)
qed

text \<open>
  Claim C4, as amended. For all sequences \<open>A\<close> and \<open>B\<close> (also absent ones) and any
  comparator, given or defaulted to \<open>===\<close>, every element of \<open>A\<close> lands in exactly one of
  \<open>differenceOf(A, B, cmp)\<close> and \<open>intersectionOf(A, B, cmp)\<close>: as sets the two results add
  up to the elements of \<open>A\<close> and share no element, and as multisets they add up to \<open>A\<close>,
  so that nothing is duplicated beyond the duplicates of \<open>A\<close>. When the comparator is
  transitive, as \<open>===\<close> is, their intersection judged by that same comparator,
  \<open>intersectionOf(differenceOf(A, B, cmp), intersectionOf(A, B, cmp), cmp)\<close>, is empty.
\<close>

theorem differenceOf_intersectionOf_partition:
  "set (differenceOf A B cmp) \<union> set (intersectionOf A B cmp) = set (List_of A)
   \<and> set (differenceOf A B cmp) \<inter> set (intersectionOf A B cmp) = {}
   \<and> mset (differenceOf A B cmp) + mset (intersectionOf A B cmp) = mset (List_of A)
   \<and> (transitive_comparator (comparator_or_default cmp) \<longrightarrow>
        intersectionOf (Some (differenceOf A B cmp)) (Some (intersectionOf A B cmp)) cmp = [])"
proof -
  define P where
    "P = (\<lambda>elementA. list_ex (\<lambda>elementB. comparator_or_default cmp elementA elementB) (List_of B))"
  have d: "differenceOf A B cmp = filter (\<lambda>x. \<not> P x) (List_of A)"
    by (simp add: differenceOf_def P_def)
  have i: "intersectionOf A B cmp = filter P (List_of A)"
    by (simp add: intersectionOf_def P_def)
  have "set (filter (\<lambda>x. \<not> P x) (List_of A)) \<union> set (filter P (List_of A)) = set (List_of A)"
    by auto
  moreover have "set (filter (\<lambda>x. \<not> P x) (List_of A)) \<inter> set (filter P (List_of A)) = {}"
    by auto
  moreover have "mset (filter (\<lambda>x. \<not> P x) (List_of A)) + mset (filter P (List_of A)) = mset (List_of A)"
    by (induction "List_of A") (simp_all add: multiset_partition [symmetric] add.commute)
  ultimately have "set (differenceOf A B cmp) \<union> set (intersectionOf A B cmp) = set (List_of A)"
    and "set (differenceOf A B cmp) \<inter> set (intersectionOf A B cmp) = {}"
    and "mset (differenceOf A B cmp) + mset (intersectionOf A B cmp) = mset (List_of A)"
    unfolding d i by blast+
  then show ?thesis
    using transitive_comparator_disjoint [of cmp A B] by blast
qed

theorem differenceOf_intersectionOf_partition_witness:
  "transitive_comparator (comparator_or_default (Some same_typeof))
   \<and> differenceOf (Some [Num 1, Str ''x'', Num 2]) (Some [Num 5]) (Some same_typeof) = [Str ''x'']
   \<and> intersectionOf (Some [Num 1, Str ''x'', Num 2]) (Some [Num 5]) (Some same_typeof)
        = [Num 1, Num 2]
   \<and> intersectionOf
        (Some (differenceOf (Some [Num 1, Str ''x'', Num 2]) (Some [Num 5]) (Some same_typeof)))
        (Some (intersectionOf (Some [Num 1, Str ''x'', Num 2]) (Some [Num 5]) (Some same_typeof)))
        (Some same_typeof) = []"
proof -
  have t: "transitive_comparator (comparator_or_default (Some same_typeof))"
    by (simp add: transitive_comparator_def comparator_or_default_def same_typeof_def)
  have v: "differenceOf (Some [Num 1, Str ''x'', Num 2]) (Some [Num 5]) (Some same_typeof) = [Str ''x'']"
    "intersectionOf (Some [Num 1, Str ''x'', Num 2]) (Some [Num 5]) (Some same_typeof)
        = [Num 1, Num 2]"
    by (simp_all add: differenceOf_def intersectionOf_def List_of_def comparator_or_default_def
        same_typeof_def)
  from differenceOf_intersectionOf_partition
    [of "Some [Num 1, Str ''x'', Num 2]" "Some [Num 5]" "Some same_typeof"] t
  have "intersectionOf
        (Some (differenceOf (Some [Num 1, Str ''x'', Num 2]) (Some [Num 5]) (Some same_typeof)))
        (Some (intersectionOf (Some [Num 1, Str ''x'', Num 2]) (Some [Num 5]) (Some same_typeof)))
        (Some same_typeof) = []"
    by blast
  with t v show ?thesis by blast
qed

text \<open>
  The claim as it was stated, for any comparator, fails for one that is not transitive:
  with \<open>A = [1, 2]\<close>, \<open>B = [2]\<close> and \<open>(a, b) => a !== b\<close> the difference is \<open>[2]\<close>, the
  intersection is \<open>[1]\<close>, and the intersection of the two under the same comparator is
  \<open>[2]\<close>.
\<close>

theorem not_strict_eq_intersection_nonempty:
  "differenceOf (Some [Num 1, Num 2]) (Some [Num 2]) (Some not_strict_eq) = [Num 2]
   \<and> intersectionOf (Some [Num 1, Num 2]) (Some [Num 2]) (Some not_strict_eq) = [Num 1]
   \<and> intersectionOf
        (Some (differenceOf (Some [Num 1, Num 2]) (Some [Num 2]) (Some not_strict_eq)))
        (Some (intersectionOf (Some [Num 1, Num 2]) (Some [Num 2]) (Some not_strict_eq)))
        (Some not_strict_eq) = [Num 2]"
  by (simp add: differenceOf_def intersectionOf_def List_of_def comparator_or_default_def
      not_strict_eq_def)

section \<open>The calendar\<close>






















section \<open>Properties of copyDate and copyTime\<close>





















lemma date_setter_time_in_day:
  "time_in_day (set_field Month v t) = time_in_day t"
  "time_in_day (set_field Date v t) = time_in_day t"
  "time_in_day (set_field Year v t) = time_in_day t"
  by (simp_all add: time_in_day_def)




















text \<open>
  The order of the three \<open>set\<close> calls of \<open>copyDate\<close> (month, day of month, year) shows
  when \<open>from\<close> is 29 February of a leap year and \<open>to\<close> lies in a common year: with
  \<open>from\<close> at 2024-02-29 and \<open>to\<close> at 2023-01-15, day 29 is set while \<open>to\<close> is still in
  February 2023 and overflows, and \<open>to\<close> ends at 2024-03-01 (month 2, counted from 0).
\<close>

lemma copyDate_leap_day_example:
  "(case copyDate ((\<lambda>_. Invalid)(0 := At 1709164800000, 1 := At 1673740800000)) (Some 0) (Some 1) of
      Inl e \<Rightarrow> False
    | Inr (r, h') \<Rightarrow>
        map (\<lambda>f. getter f (h' 1)) [Year, Month, Date] = [Num 2024, Num 2, Num 1])
   \<and> map (\<lambda>f. getter f (At 1709164800000)) [Year, Month, Date] = [Num 2024, Num 1, Num 29]
   \<and> map (\<lambda>f. getter f (At 1673740800000)) [Year, Month, Date] = [Num 2023, Num 0, Num 15]"
  by code_simp

text \<open>
  Claim C8. For \<open>copyDate(from, to)\<close> and \<open>copyTime(from, to)\<close>, if either operand is an
  invalid moment, the call returns \<open>to\<close> and leaves every object, \<open>to\<close> included, as it
  was.
\<close>

theorem copy_invalid_operand_noop:
  assumes "\<not> isValid (h f) \<or> \<not> isValid (h t)"
  shows "copyDate h (Some f) (Some t) = Inr (Some t, h)
       \<and> copyTime h (Some f) (Some t) = Inr (Some t, h)"
  using assms by (auto simp: copyDate_def copyTime_def)


theorem copy_invalid_operand_noop_witness:
  "\<not> isValid (example_heap 2)
   \<and> copyDate example_heap (Some 2) (Some 1) = Inr (Some 1, example_heap)
   \<and> copyTime example_heap (Some 2) (Some 1) = Inr (Some 1, example_heap)"
proof -
  have i: "\<not> isValid (example_heap 2)" by (simp add: example_heap_def)
  then have "\<not> isValid (example_heap 2) \<or> \<not> isValid (example_heap 1)" ..
  from copy_invalid_operand_noop [OF this] i show ?thesis by blast
qed

section \<open>Properties of parseDate and formatDate\<close>

lemma not_isValid_iff: "(\<not> isValid m) = (m = Invalid)"
  by (cases m) simp_all

lemma parseDate_loop_all_invalid:
  "list_all (\<lambda>(fmt, shouldParse). shouldParse s \<longrightarrow> \<not> isValid (parse_with E s fmt)) fs
     \<Longrightarrow> parseDate_loop E s fs = parse E s"
  by (induction fs) (auto simp: Let_def)

lemma slash_shape_example:
  "\<not> shouldParseOrdinalMonthDayTwoDigitYear ''13/2024''"
  "\<not> shouldParseOrdinalMonthDayFullYear ''13/2024''"
  by (simp_all add: shouldParseOrdinalMonthDayTwoDigitYear_def
      shouldParseOrdinalMonthDayFullYear_def last4_def)

lemma formatDate_invalid:
  "formatDate E TsNull fmt rel zone = None"
  "formatDate E TsUndefined fmt rel zone = None"
  "formatDate E (TsMoment Invalid) fmt rel zone = None"
  by (simp_all add: formatDate_def)

text \<open>
  Claim C5. For every string, \<open>parseDate\<close> does not throw and returns a moment. The
  moment is the invalid one when the string is empty (as the helper \<open>stringIsEmpty\<close>
  judges it) and when the string is unparseable, that is, when the library parses it to a
  valid moment neither with one of the four formats nor without a format. For
  \<open>"13/2024"\<close> the two slash-shaped formats are not tried at all, so that it is enough that
  the library rejects it under the two offset formats and without a format. \<open>formatDate\<close>
  of \<open>null\<close>, \<open>undefined\<close> or an invalid moment returns \<open>null\<close>.
\<close>

theorem parseDate_total_invalid_marker:
  "(\<exists>m. parseDate E (Some s) = Inr m)
   \<and> (stringIsEmpty E (Some s) \<longrightarrow> parseDate E (Some s) = Inr Invalid)
   \<and> (\<not> isValid (parse E s)
        \<and> list_all (\<lambda>(fmt, shouldParse). \<not> isValid (parse_with E s fmt)) (commonDateFormats E)
      \<longrightarrow> parseDate E (Some s) = Inr Invalid)
   \<and> (\<not> isValid (parse E ''13/2024'')
        \<and> \<not> isValid (parse_with E ''13/2024'' (ISODateTimeOffset E))
        \<and> \<not> isValid (parse_with E ''13/2024'' (DateTimeOffset E))
      \<longrightarrow> parseDate E (Some ''13/2024'') = Inr Invalid)
   \<and> formatDate E TsNull fmt rel zone = None
   \<and> formatDate E TsUndefined fmt rel zone = None
   \<and> (\<not> isValid m \<longrightarrow> formatDate E (TsMoment m) fmt rel zone = None)"
proof -
  have total: "\<exists>m. parseDate E (Some s) = Inr m"
    by (simp add: parseDate_def)
  have empty: "stringIsEmpty E (Some s) \<longrightarrow> parseDate E (Some s) = Inr Invalid"
    by (simp add: parseDate_def)
  have unparseable: "\<not> isValid (parse E s)
        \<and> list_all (\<lambda>(fmt, shouldParse). \<not> isValid (parse_with E s fmt)) (commonDateFormats E)
      \<longrightarrow> parseDate E (Some s) = Inr Invalid"
  proof
    assume a: "\<not> isValid (parse E s)
        \<and> list_all (\<lambda>(fmt, shouldParse). \<not> isValid (parse_with E s fmt)) (commonDateFormats E)"
    then have "list_all (\<lambda>(fmt, shouldParse). shouldParse s \<longrightarrow> \<not> isValid (parse_with E s fmt))
                 (commonDateFormats E)"
      by (simp add: commonDateFormats_def)
    then have "parseDate_loop E s (commonDateFormats E) = parse E s"
      by (rule parseDate_loop_all_invalid)
    with a show "parseDate E (Some s) = Inr Invalid"
      by (simp add: parseDate_def not_isValid_iff)
  qed
  have example: "\<not> isValid (parse E ''13/2024'')
        \<and> \<not> isValid (parse_with E ''13/2024'' (ISODateTimeOffset E))
        \<and> \<not> isValid (parse_with E ''13/2024'' (DateTimeOffset E))
      \<longrightarrow> parseDate E (Some ''13/2024'') = Inr Invalid"
  proof
    assume a: "\<not> isValid (parse E ''13/2024'')
        \<and> \<not> isValid (parse_with E ''13/2024'' (ISODateTimeOffset E))
        \<and> \<not> isValid (parse_with E ''13/2024'' (DateTimeOffset E))"
    then have "list_all (\<lambda>(fmt, shouldParse). shouldParse ''13/2024'' \<longrightarrow>
                   \<not> isValid (parse_with E ''13/2024'' fmt)) (commonDateFormats E)"
      using slash_shape_example by (simp add: commonDateFormats_def)
    then have "parseDate_loop E ''13/2024'' (commonDateFormats E) = parse E ''13/2024''"
      by (rule parseDate_loop_all_invalid)
    with a show "parseDate E (Some ''13/2024'') = Inr Invalid"
      by (simp add: parseDate_def not_isValid_iff)
  qed
  have inv: "\<not> isValid m \<longrightarrow> formatDate E (TsMoment m) fmt rel zone = None"
    by (simp add: not_isValid_iff formatDate_invalid)
  from total empty unparseable example inv formatDate_invalid(1,2) show ?thesis
    by blast
qed

theorem parseDate_total_invalid_marker_witness:
  "stringIsEmpty example_env (Some [])
   \<and> parseDate example_env (Some []) = Inr Invalid
   \<and> \<not> stringIsEmpty example_env (Some ''13/2024'')
   \<and> \<not> isValid (parse example_env ''13/2024'')
   \<and> \<not> isValid (parse_with example_env ''13/2024'' (ISODateTimeOffset example_env))
   \<and> \<not> isValid (parse_with example_env ''13/2024'' (DateTimeOffset example_env))
   \<and> list_all (\<lambda>(fmt, shouldParse). \<not> isValid (parse_with example_env ''13/2024'' fmt))
        (commonDateFormats example_env)
   \<and> parseDate example_env (Some ''13/2024'') = Inr Invalid
   \<and> \<not> isValid Invalid
   \<and> formatDate example_env (TsMoment Invalid) None False None = None"
proof -
  have e: "stringIsEmpty example_env (Some [])"
    and n: "\<not> stringIsEmpty example_env (Some ''13/2024'')"
    and p: "\<not> isValid (parse example_env ''13/2024'')"
    and p1: "\<not> isValid (parse_with example_env ''13/2024'' (ISODateTimeOffset example_env))"
    and p2: "\<not> isValid (parse_with example_env ''13/2024'' (DateTimeOffset example_env))"
    and l: "list_all (\<lambda>(fmt, shouldParse). \<not> isValid (parse_with example_env ''13/2024'' fmt))
        (commonDateFormats example_env)"
    by (simp_all add: example_env_def commonDateFormats_def)
  have i: "\<not> isValid Invalid" by simp
  from parseDate_total_invalid_marker
    [where E = example_env and s = "[]" and m = Invalid and fmt = None and rel = False and zone = None] e
  have r1: "parseDate example_env (Some []) = Inr Invalid" by blast
  from parseDate_total_invalid_marker
    [where E = example_env and s = "''13/2024''" and m = Invalid and fmt = None and rel = False
       and zone = None] p p1 p2 i
  have r2: "parseDate example_env (Some ''13/2024'') = Inr Invalid"
    and r3: "formatDate example_env (TsMoment Invalid) None False None = None" by blast+
  from e r1 n p p1 p2 l r2 i r3 show ?thesis by blast
qed


section \<open>Properties of isEqual\<close>

lemma for_keys_all_True:
  "(\<And>key. key \<in> set keys \<Longrightarrow> body key = Inr True) \<Longrightarrow> for_keys body keys = Inr True"
  by (induction keys) simp_all

text \<open>
  Claim C10. \<open>isEqual\<close> looks at two values that are not the same reference only through
  their enumerable string keys: an array and a plain object that have equally many keys,
  where every index of the array is a key of the object and the two values under every
  index are not functions and are equal in the sense of \<open>isEqual\<close>, compare equal. For
  example \<open>isEqual([1, 2], {"0": 1, "1": 2})\<close> returns \<open>true\<close>.
\<close>

theorem isEqual_array_and_object:
  assumes "length ps = length xs"
    and "set (index_keys (length xs)) \<subseteq> set (map fst ps)"
    and "\<forall>key \<in> set (index_keys (length xs)).
           typeof (get_prop (Arr a xs) key) \<noteq> TFunction
         \<and> typeof (get_prop (Obj b c ps) key) \<noteq> TFunction
         \<and> isEqual (get_prop (Arr a xs) key) (get_prop (Obj b c ps) key) = Inr True"
  shows "isEqual (Arr a xs) (Obj b c ps) = Inr True"
proof -
  have "for_keys (\<lambda>key.
          if key \<notin> set (map fst ps) then Inr False
          else if typeof (get_prop (Arr a xs) key) = TFunction
                  \<or> typeof (get_prop (Obj b c ps) key) = TFunction
          then (case method_toString (get_prop (Arr a xs) key) of
                  Inl e \<Rightarrow> Inl e
                | Inr textA \<Rightarrow>
                   (case method_toString (get_prop (Obj b c ps) key) of
                      Inl e \<Rightarrow> Inl e
                    | Inr textB \<Rightarrow> if textA \<noteq> textB then Inr False else Inr True))
          else (case isEqual (get_prop (Arr a xs) key) (get_prop (Obj b c ps) key) of
                  Inl e \<Rightarrow> Inl e
                | Inr eq \<Rightarrow> if \<not> eq then Inr False else Inr True))
        (index_keys (length xs)) = Inr True"
    using assms(2,3) by (intro for_keys_all_True) auto
  then show ?thesis
    using assms(1) by (subst isEqual.simps) (simp add: index_keys_def)
qed

lemma index_keys_2: "index_keys (Suc (Suc 0)) = [''0'', ''1'']"
  by code_simp

theorem isEqual_array_and_object_witness:
  "length [(''0'', Num 1), (''1'', Num 2)] = length [Num 1, Num 2]
   \<and> isEqual (Arr 0 [Num 1, Num 2]) (Obj 1 PlainObject [(''0'', Num 1), (''1'', Num 2)]) = Inr True"
proof -
  have n: "isEqual (Num 1) (Num 1) = Inr True" "isEqual (Num 2) (Num 2) = Inr True"
    by (simp_all add: isEqual.simps)
  have l: "length [(''0'', Num 1), (''1'', Num 2)] = length [Num 1, Num 2]" by simp
  have k: "set (index_keys (length [Num 1, Num 2])) \<subseteq> set (map fst [(''0'', Num 1), (''1'', Num 2)])"
    by (simp add: index_keys_2)
  have v: "\<forall>key \<in> set (index_keys (length [Num 1, Num 2])).
           typeof (get_prop (Arr 0 [Num 1, Num 2]) key) \<noteq> TFunction
         \<and> typeof (get_prop (Obj 1 PlainObject [(''0'', Num 1), (''1'', Num 2)]) key) \<noteq> TFunction
         \<and> isEqual (get_prop (Arr 0 [Num 1, Num 2]) key)
                    (get_prop (Obj 1 PlainObject [(''0'', Num 1), (''1'', Num 2)]) key) = Inr True"
    by (simp add: index_keys_2 n)
  from isEqual_array_and_object [OF l k v] l show ?thesis by blast
qed


section \<open>Properties of getDefaultMap\<close>

lemma getDefaultMap_step_target:
  "getDefaultMap_step enumType dv key m = map_set m (enum_target enumType key) dv"
  by (simp add: getDefaultMap_step_def enum_target_def Let_def)

lemma imm_is_Num: "imm_is k (Num n) = (k = Num n)"
  by (cases k) (auto simp: imm_is_def)

lemma map_set_fst:
  "map fst (map_set m (Num n) v) =
     (if Num n \<in> set (map fst m) then map fst m else map fst m @ [Num n])"
proof (induction m)
  case Nil
  show ?case by simp
next
  case (Cons e m)
  obtain k' v' where e: "e = (k', v')" by (cases e)
  show ?case
  proof (cases "k' = Num n")
    case True
    then show ?thesis by (simp add: e imm_is_Num)
  next
    case False
    then have "Num n \<noteq> k'" by blast
    with False Cons show ?thesis by (simp add: e imm_is_Num)
  qed
qed

lemma map_set_keys:
  "fst ` set (map_set m (Num n) v) = insert (Num n) (fst ` set m)"
proof -
  have "set (map fst (map_set m (Num n) v)) = insert (Num n) (set (map fst m))"
    unfolding map_set_fst by auto
  then show ?thesis by simp
qed

lemma map_set_distinct:
  "distinct (map fst m) \<Longrightarrow> distinct (map fst (map_set m (Num n) v))"
  unfolding map_set_fst by simp

lemma map_set_snd:
  "set (map snd (map_set m k v)) \<subseteq> insert v (set (map snd m))"
proof (induction m)
  case Nil
  show ?case by simp
next
  case (Cons e m)
  obtain k' v' where e: "e = (k', v')" by (cases e)
  from Cons show ?case
    by (cases "imm_is k' k") (auto simp: e)
qed

lemma map_set_values:
  assumes "snd ` set m \<subseteq> {v}"
  shows "snd ` set (map_set m k v) \<subseteq> {v}"
proof -
  have "set (map snd (map_set m k v)) \<subseteq> insert v (set (map snd m))"
    by (rule map_set_snd)
  also have "\<dots> \<subseteq> {v}" using assms by auto
  finally show ?thesis by simp
qed

lemma fold_map_set:
  assumes "\<forall>key \<in> set keys. \<exists>n. tgt key = Num n"
    and "distinct (map fst m)" and "snd ` set m \<subseteq> {dv}"
  shows "fst ` set (fold (\<lambda>key m. map_set m (tgt key) dv) keys m) = fst ` set m \<union> tgt ` set keys
       \<and> distinct (map fst (fold (\<lambda>key m. map_set m (tgt key) dv) keys m))
       \<and> snd ` set (fold (\<lambda>key m. map_set m (tgt key) dv) keys m) \<subseteq> {dv}"
  using assms
proof (induction keys arbitrary: m)
  case Nil
  then show ?case by simp
next
  case (Cons key keys)
  obtain n where n: "tgt key = Num n" using Cons.prems(1) by auto
  have 1: "\<forall>key \<in> set keys. \<exists>n. tgt key = Num n" using Cons.prems(1) by simp
  have 2: "distinct (map fst (map_set m (Num n) dv))"
    using Cons.prems(2) by (rule map_set_distinct)
  have 3: "snd ` set (map_set m (Num n) dv) \<subseteq> {dv}"
    using Cons.prems(3) by (rule map_set_values)
  from Cons.IH [OF 1 2 3] show ?case
    by (simp add: n map_set_keys)
qed


lemma enum_target_Num:
  assumes "numeric_enum ps" "(key, v) \<in> set ps"
  shows "\<exists>n. enum_target (Obj a c ps) key = Num n \<and> Num n \<in> set (enumerant_values ps)"
proof -
  have d: "distinct (map fst ps)" and e: "is_enum_entry ps (key, v)"
    using assms by (auto simp: numeric_enum_def list_all_iff)
  have look: "map_of ps key = Some v"
    using d assms(2) by simp
  show ?thesis
  proof (cases v)
    case (Num n)
    then have "enum_target (Obj a c ps) key = Num n"
      by (simp add: enum_target_def look)
    moreover have "Num n \<in> set (enumerant_values ps)"
      using assms(2) Num by (force simp: enumerant_values_def is_Num_def)
    ultimately show ?thesis by blast
  next
    case (Str name)
    with e have nn: "\<not> string_is_numeric name"
      and "case map_of ps name of Some (Num n) \<Rightarrow> True | _ \<Rightarrow> False"
      by (simp_all add: is_enum_entry_def)
    then obtain n where n: "map_of ps name = Some (Num n)"
      by (auto split: option.splits jsval.splits)
    then have "(name, Num n) \<in> set ps" by (rule map_of_SomeD)
    then have "Num n \<in> set (enumerant_values ps)"
      by (force simp: enumerant_values_def is_Num_def)
    moreover have "enum_target (Obj a c ps) key = Num n"
      using nn n Str by (simp add: enum_target_def look)
    ultimately show ?thesis by blast
  qed (use e in \<open>simp_all add: is_enum_entry_def\<close>)
qed

lemma enum_target_image:
  assumes "numeric_enum ps"
  shows "enum_target (Obj a c ps) ` set (map fst ps) = set (enumerant_values ps)"
proof
  show "enum_target (Obj a c ps) ` set (map fst ps) \<subseteq> set (enumerant_values ps)"
  proof
    fix x assume "x \<in> enum_target (Obj a c ps) ` set (map fst ps)"
    then obtain key v where "(key, v) \<in> set ps" and x: "x = enum_target (Obj a c ps) key"
      by auto
    from enum_target_Num [OF assms this(1), of a c] x
    show "x \<in> set (enumerant_values ps)" by auto
  qed
next
  show "set (enumerant_values ps) \<subseteq> enum_target (Obj a c ps) ` set (map fst ps)"
  proof
    fix v assume "v \<in> set (enumerant_values ps)"
    then obtain key n where kv: "(key, v) \<in> set ps" and v: "v = Num n"
      by (auto simp: enumerant_values_def is_Num_def split: jsval.splits)
    have d: "distinct (map fst ps)" using assms by (simp add: numeric_enum_def)
    have "map_of ps key = Some (Num n)" using d kv v by simp
    then have "enum_target (Obj a c ps) key = v"
      by (simp add: enum_target_def v)
    moreover have "key \<in> set (map fst ps)" using kv by force
    ultimately show "v \<in> enum_target (Obj a c ps) ` set (map fst ps)" by blast
  qed
qed

text \<open>
  Claim C9, as amended. For every numeric enum object (each property an enumerant bound to
  a number, or a reverse-lookup entry naming an enumerant), \<open>getDefaultMap\<close> returns a map
  whose keys are exactly the enumerant values, one entry for each, every entry bound to
  the default value (\<open>false\<close> when none is given), also when the object holds the
  reverse-lookup keys. In particular \<open>getDefaultMap({A: 0, B: 1}, true)\<close> is the map
  \<open>{0: true, 1: true}\<close>.
\<close>

theorem getDefaultMap_numeric_enum:
  assumes "numeric_enum ps"
  shows "\<exists>m. getDefaultMap (Obj a c ps) defaultValue = Inr m
           \<and> set (map fst m) = set (enumerant_values ps)
           \<and> distinct (map fst m)
           \<and> set (map snd m) \<subseteq> {case defaultValue of None \<Rightarrow> False | Some b \<Rightarrow> b}"
proof -
  define dv where "dv = (case defaultValue of None \<Rightarrow> False | Some b \<Rightarrow> b)"
  define tgt where "tgt = enum_target (Obj a c ps)"
  define m where "m = fold (\<lambda>key m. map_set m (tgt key) dv) (map fst ps) []"
  have step: "getDefaultMap_step (Obj a c ps) dv = (\<lambda>key m. map_set m (tgt key) dv)"
    by (intro ext) (simp add: getDefaultMap_step_target tgt_def)
  have r: "getDefaultMap (Obj a c ps) defaultValue = Inr m"
    by (simp add: getDefaultMap_def dv_def [symmetric] step m_def)
  have "\<forall>key \<in> set (map fst ps). \<exists>n. tgt key = Num n"
  proof
    fix key assume "key \<in> set (map fst ps)"
    then obtain v where "(key, v) \<in> set ps" by auto
    from enum_target_Num [OF assms this, of a c]
    show "\<exists>n. tgt key = Num n" unfolding tgt_def by blast
  qed
  from fold_map_set [OF this, of "[]" dv]
  have "fst ` set m = tgt ` set (map fst ps)" and "distinct (map fst m)" and "snd ` set m \<subseteq> {dv}"
    unfolding m_def by simp_all
  then have "set (map fst m) = set (enumerant_values ps)" and "distinct (map fst m)"
    and "set (map snd m) \<subseteq> {dv}"
    using enum_target_image [OF assms] by (simp_all add: tgt_def)
  with r show ?thesis unfolding dv_def by blast
qed

lemma not_numeric_A: "\<not> string_is_numeric ''A''" "\<not> string_is_numeric ''B''"
  by code_simp+

theorem getDefaultMap_numeric_enum_witness:
  "numeric_enum [(''A'', Num 0), (''B'', Num 1)]
   \<and> numeric_enum [(''0'', Str ''A''), (''1'', Str ''B''), (''A'', Num 0), (''B'', Num 1)]
   \<and> getDefaultMap (Obj 0 PlainObject [(''A'', Num 0), (''B'', Num 1)]) (Some True)
       = Inr [(Num 0, True), (Num 1, True)]
   \<and> (\<exists>m. getDefaultMap (Obj 0 PlainObject
              [(''0'', Str ''A''), (''1'', Str ''B''), (''A'', Num 0), (''B'', Num 1)]) (Some True) = Inr m
          \<and> set (map fst m) = {Num 0, Num 1} \<and> distinct (map fst m) \<and> set (map snd m) \<subseteq> {True})"
proof -
  have e1: "numeric_enum [(''A'', Num 0), (''B'', Num 1)]"
    by (simp add: numeric_enum_def is_enum_entry_def)
  have e2: "numeric_enum [(''0'', Str ''A''), (''1'', Str ''B''), (''A'', Num 0), (''B'', Num 1)]"
    by (simp add: numeric_enum_def is_enum_entry_def not_numeric_A)
  have v: "set (enumerant_values [(''0'', Str ''A''), (''1'', Str ''B''), (''A'', Num 0), (''B'', Num 1)])
            = {Num 0, Num 1}"
    by (simp add: enumerant_values_def is_Num_def)
  have g: "getDefaultMap (Obj 0 PlainObject [(''A'', Num 0), (''B'', Num 1)]) (Some True)
       = Inr [(Num 0, True), (Num 1, True)]"
    by (simp add: getDefaultMap_def getDefaultMap_step_def imm_is_def)
  from getDefaultMap_numeric_enum [OF e2, of 0 PlainObject "Some True"] v e1 e2 g
  show ?thesis by simp
qed

text \<open>
  The claim as it was stated, for every enum-like object, fails on an enum with string
  values: \<open>{A: "a"}\<close> has no number among its values, the value \<open>"a"\<close> is taken for the
  name of an enumerant, and the one key of the map is \<open>undefined\<close>.
\<close>

theorem getDefaultMap_string_enum:
  "getDefaultMap (Obj 0 PlainObject [(''A'', Str ''a'')]) (Some True) = Inr [(Undefined, True)]
   \<and> enumerant_values [(''A'', Str ''a'')] = []"
  by code_simp


section \<open>Which calls return and which throw\<close>

lemma for_keys_total:
  "(\<And>key. key \<in> set keys \<Longrightarrow> \<exists>b. body key = Inr b) \<Longrightarrow> \<exists>b. for_keys body keys = Inr b"
proof (induction keys)
  case Nil
  show ?case by auto
next
  case (Cons k ks)
  obtain b where "body k = Inr b" using Cons.prems [of k] by auto
  moreover obtain r where "for_keys body ks = Inr r" using Cons by auto
  ultimately show ?case by auto
qed

lemma nth_or_undefined_cases:
  "nth_or_undefined xs ks key = Undefined \<or> nth_or_undefined xs ks key \<in> set xs"
  by (induction xs ks key rule: nth_or_undefined.induct) auto

lemma has_function_get_prop:
  assumes "\<not> has_function v"
  shows "\<not> has_function (get_prop v key)"
proof (cases v)
  case (Arr a xs)
  with assms nth_or_undefined_cases [of xs "index_keys (length xs)" key] show ?thesis
    by (auto simp: list_ex_iff)
next
  case (Obj a c ps)
  show ?thesis
  proof (cases "map_of ps key")
    case None
    with Obj show ?thesis by simp
  next
    case (Some x)
    then have "(key, x) \<in> set ps" by (rule map_of_SomeD)
    then have "x \<in> snd ` set ps" by force
    with assms Obj Some show ?thesis by (auto simp: list_ex_iff)
  qed
next
  case (Str s)
  with nth_or_undefined_cases [of "map (\<lambda>c. Str [c]) s" "index_keys (length s)" key]
  show ?thesis by auto
qed simp_all

lemma typeof_function: "typeof v = TFunction \<Longrightarrow> has_function v"
  by (cases v) simp_all

lemma Object_keys_defined: "\<not> isNullOrUndefined v \<Longrightarrow> \<exists>keys. Object_keys v = Inr keys"
  by (cases v) simp_all

lemma isEqual_total:
  "\<not> has_function x \<Longrightarrow> \<not> has_function y \<Longrightarrow> \<exists>b. isEqual x y = Inr b"
proof (induction x y rule: isEqual.induct)
  case (1 objectA objectB)
  show ?case
  proof (cases "strict_eq objectA objectB \<or> typeof objectA \<noteq> TObject \<or> typeof objectB \<noteq> TObject
              \<or> isNullOrUndefined objectA \<or> isNullOrUndefined objectB")
    case True
    then show ?thesis by (subst isEqual.simps) auto
  next
    case False
    then obtain keysA keysB where k: "Object_keys objectA = Inr keysA" "Object_keys objectB = Inr keysB"
      using Object_keys_defined by blast
    have nf: "typeof (get_prop objectA key) \<noteq> TFunction" "typeof (get_prop objectB key) \<noteq> TFunction"
      for key
      using has_function_get_prop [OF "1.prems"(1)] has_function_get_prop [OF "1.prems"(2)]
        typeof_function by blast+
    show ?thesis
    proof (cases "length keysA \<noteq> length keysB")
      case True
      with False k show ?thesis by (subst isEqual.simps) auto
    next
      case len: False
      define body where "body = (\<lambda>key.
                if key \<notin> set keysB then Inr False
                else if typeof (get_prop objectA key) = TFunction
                        \<or> typeof (get_prop objectB key) = TFunction
                then (case method_toString (get_prop objectA key) of
                        Inl e \<Rightarrow> Inl e
                      | Inr textA \<Rightarrow>
                         (case method_toString (get_prop objectB key) of
                            Inl e \<Rightarrow> Inl e
                          | Inr textB \<Rightarrow> if textA \<noteq> textB then Inr False else Inr True))
                else (case isEqual (get_prop objectA key) (get_prop objectB key) of
                        Inl e \<Rightarrow> Inl e
                      | Inr eq \<Rightarrow> if \<not> eq then Inr False else Inr True))"
      have "\<exists>b. body key = Inr b" if "key \<in> set keysA" for key
      proof (cases "key \<in> set keysB")
        case True
        have "\<exists>b. isEqual (get_prop objectA key) (get_prop objectB key) = Inr b"
          using False k len that True nf
          by (intro "1.IH" [of keysA keysB key] has_function_get_prop "1.prems") auto
        then obtain b where "isEqual (get_prop objectA key) (get_prop objectB key) = Inr b" ..
        with True nf show ?thesis unfolding body_def by (cases b) auto
      next
        case False
        then show ?thesis unfolding body_def by auto
      qed
      then have "\<exists>b. for_keys body keysA = Inr b"
        by (rule for_keys_total)
      moreover have "isEqual objectA objectB = for_keys body keysA"
        using False k len unfolding body_def by (subst isEqual.simps) simp
      ultimately show ?thesis by simp
    qed
  qed
qed


lemma copy_returns:
  "\<exists>r h'. copyDate h (Some f) (Some t) = Inr (r, h')"
  "\<exists>r h'. copyTime h (Some f) (Some t) = Inr (r, h')"
  by (simp_all add: copyDate_def copyTime_def Let_def)

lemma getDefaultMap_returns:
  "\<not> isNullOrUndefined enumType \<Longrightarrow> \<exists>m. getDefaultMap enumType dv = Inr m"
  using Object_keys_defined [of enumType] by (auto simp: getDefaultMap_def Let_def)

text \<open>
  Claim C6, as amended. The operations return a defined value, without throwing, on these
  inputs: \<open>isEmpty\<close> and \<open>hasValues\<close> on every argument list, \<open>null\<close> and \<open>undefined\<close>
  arguments included; \<open>differenceOf\<close> and \<open>intersectionOf\<close> on sequences, an absent one
  counting as empty; \<open>getDefaultMap\<close> on every enum object that is not \<open>null\<close> or
  \<open>undefined\<close>; \<open>isEqual\<close> on every two values in which no function occurs; \<open>parseDate\<close>
  on every string, and on \<open>null\<close> when the helper \<open>stringIsEmpty\<close> takes it for empty;
  \<open>formatDate\<close>, with result \<open>null\<close>, on \<open>null\<close>, \<open>undefined\<close> and the invalid moment;
  \<open>copyDate\<close> and \<open>copyTime\<close> whenever both operands are moments, valid or not.
\<close>

theorem operations_return_without_throwing:
  "(\<exists>b. isEmpty collections = Inr b)
   \<and> (\<exists>b. hasValues collections = Inr b)
   \<and> differenceOf None B cmp = [] \<and> intersectionOf None B cmp = []
   \<and> differenceOf A None cmp = List_of A \<and> intersectionOf A None cmp = []
   \<and> (\<not> isNullOrUndefined enumType \<longrightarrow> (\<exists>m. getDefaultMap enumType dv = Inr m))
   \<and> (\<not> has_function x \<and> \<not> has_function y \<longrightarrow> (\<exists>b. isEqual x y = Inr b))
   \<and> (\<exists>m. parseDate E (Some s) = Inr m)
   \<and> (stringIsEmpty E None \<longrightarrow> parseDate E None = Inr Invalid)
   \<and> formatDate E TsNull fmt rel zone = None
   \<and> formatDate E TsUndefined fmt rel zone = None
   \<and> formatDate E (TsMoment Invalid) fmt rel zone = None
   \<and> (\<exists>r h'. copyDate h (Some f) (Some t) = Inr (r, h'))
   \<and> (\<exists>r h'. copyTime h (Some f) (Some t) = Inr (r, h'))"
proof -
  obtain b where b: "isEmpty collections = Inr b" "hasValues collections = Inr (\<not> b)"
    using loops_complement [of True collections] by (auto simp: isEmpty_def hasValues_def)
  have sets: "differenceOf None B cmp = []" "intersectionOf None B cmp = []"
    "differenceOf A None cmp = List_of A" "intersectionOf A None cmp = []"
    by (simp_all add: differenceOf_def intersectionOf_def List_of_def)
  have parse: "\<exists>m. parseDate E (Some s) = Inr m"
    "stringIsEmpty E None \<longrightarrow> parseDate E None = Inr Invalid"
    by (simp_all add: parseDate_def)
  from b sets parse getDefaultMap_returns [of enumType dv] isEqual_total [of x y]
    formatDate_invalid [of E fmt rel zone] copy_returns [of h f t]
  show ?thesis by blast
qed

theorem operations_return_without_throwing_witness:
  "\<not> isNullOrUndefined (Obj 0 PlainObject [])
   \<and> (\<exists>m. getDefaultMap (Obj 0 PlainObject []) None = Inr m)
   \<and> \<not> has_function (Arr 0 [Null]) \<and> \<not> has_function Null
   \<and> (\<exists>b. isEqual (Arr 0 [Null]) Null = Inr b)
   \<and> stringIsEmpty example_env None
   \<and> parseDate example_env None = Inr Invalid"
proof -
  have 1: "\<not> isNullOrUndefined (Obj 0 PlainObject [])" by simp
  have 2: "\<not> has_function (Arr 0 [Null])" "\<not> has_function Null" by simp_all
  have 3: "stringIsEmpty example_env None" by (simp add: example_env_def)
  from operations_return_without_throwing
    [where enumType = "Obj 0 PlainObject []" and dv = None and x = "Arr 0 [Null]" and y = Null
       and E = example_env] 1 2 3
  show ?thesis by blast
qed

text \<open>
  The claim as it was stated, for any input, fails: \<open>copyDate(null, to)\<close> throws a
  \<open>TypeError\<close> at \<open>from.isValid()\<close>, and \<open>copyTime(from, null)\<close> with a valid \<open>from\<close> at
  \<open>to.isValid()\<close>; \<open>getDefaultMap(null)\<close> throws at \<open>Object.keys\<close>; \<open>isEqual\<close> throws
  when a property that is a function faces a property that is \<open>null\<close>.
\<close>

theorem null_operand_throws:
  "copyDate example_heap None (Some 1) = Inl TypeError
   \<and> copyTime example_heap (Some 0) None = Inl TypeError
   \<and> getDefaultMap Null None = Inl TypeError
   \<and> isEqual (Obj 0 PlainObject [(''f'', Fn 2 ''function () {}'')])
              (Obj 1 PlainObject [(''f'', Null)]) = Inl TypeError"
  by (simp add: copyDate_def copyTime_def example_heap_def getDefaultMap_def isEqual.simps
      method_toString_def)

end
